theory Spec2Isabelle
  imports Complex_Main "HOL-Library.Word"
begin

section \<open>JavaScript strings\<close>

text \<open>
  A JavaScript string is a sequence of UTF-16 code units, and \<open>length\<close> counts code
  units. A code unit is modelled by its number; \<open>js\<close> turns an ASCII literal into
  its code units.
\<close>

type_synonym jsstring = "nat list"

definition js :: "string \<Rightarrow> jsstring" where
  "js s = map of_char s"

text \<open>
  The code units that \<open>String.prototype.trim\<close> strips and that \<open>\s\<close> matches:
  ECMAScript's WhiteSpace and LineTerminator (TAB, LF, VT, FF, CR, SP, NBSP, U+1680,
  U+2000..U+200A, LS, PS, U+202F, U+205F, U+3000, BOM).
\<close>

definition isWhiteSpace :: "nat \<Rightarrow> bool" where
  "isWhiteSpace c \<longleftrightarrow>
     c = 9 \<or> c = 10 \<or> c = 11 \<or> c = 12 \<or> c = 13 \<or> c = 32 \<or> c = 160 \<or> c = 5760 \<or>
     (8192 \<le> c \<and> c \<le> 8202) \<or> c = 8232 \<or> c = 8233 \<or> c = 8239 \<or> c = 8287 \<or>
     c = 12288 \<or> c = 65279"

definition trim :: "jsstring \<Rightarrow> jsstring" where
  "trim s = rev (dropWhile isWhiteSpace (rev (dropWhile isWhiteSpace s)))"

section \<open>Strategy 1: spatial-aware text extraction\<close>

text \<open>
  Coordinates, widths and font sizes are JavaScript numbers; they are modelled as
  real numbers (the values pdf.js reports are finite, and rounding of the
  floating-point operations is not modelled).
\<close>

subsection \<open>Line building\<close>

text \<open>The objects pushed on \<open>currentLine.items\<close>: \<open>{x, text, width, fontSize}\<close>.\<close>

record run =
  run_x :: real
  run_text :: jsstring
  run_width :: real
  run_fontSize :: real

text \<open>
  \<open>buildLineText(items, avgFontSize)\<close>: the loop over \<open>j\<close>, with \<open>prevItem =
  items[j - 1]\<close> carried along and \<open>lineText\<close> as accumulator.
\<close>

fun buildLineText_from :: "real \<Rightarrow> run \<Rightarrow> run list \<Rightarrow> jsstring \<Rightarrow> jsstring" where
  "buildLineText_from avgFontSize prevItem [] lineText = lineText"
| "buildLineText_from avgFontSize prevItem (item # rest) lineText =
     (let gap = run_x item - (run_x prevItem + run_width prevItem);
          spaceWidth = avgFontSize * 0.3
      in buildLineText_from avgFontSize item rest
           ((if gap > spaceWidth * 6 then lineText @ js ''    ''
             else if gap > spaceWidth * 0.5 then lineText @ js '' ''
             else lineText) @ run_text item))"

fun buildLineText :: "run list \<Rightarrow> real \<Rightarrow> jsstring" where
  "buildLineText [] avgFontSize = []"
| "buildLineText (item # rest) avgFontSize =
     buildLineText_from avgFontSize item rest (run_text item)"


subsection \<open>Items of a page and their font size\<close>

text \<open>
  A text item of pdf.js: \<open>str\<close>, the entries 3, 4 and 5 of \<open>transform\<close>, \<open>height\<close>
  and \<open>width\<close>. A missing \<open>str\<close> is the empty string, and a missing \<open>height\<close> or
  \<open>width\<close> is 0: the code reads them only through \<open>&&\<close> and \<open>||\<close>, where
  \<open>undefined\<close> behaves as these values do.
\<close>

record text_item =
  item_str :: jsstring
  item_transform3 :: real
  item_transform4 :: real
  item_transform5 :: real
  item_height :: real
  item_width :: real

text \<open>\<open>Math.abs(item.transform[3] || item.height || 10)\<close>\<close>

definition fontSizeOf :: "text_item \<Rightarrow> real" where
  "fontSizeOf item =
     \<bar>if item_transform3 item \<noteq> 0 then item_transform3 item
      else if item_height item \<noteq> 0 then item_height item
      else 10\<bar>"

text \<open>\<open>fontSizes.reduce((a, b) => a + b, 0) / fontSizes.length\<close>\<close>

definition avgFontSizeOf :: "text_item list \<Rightarrow> real" where
  "avgFontSizeOf items =
     (let fontSizes = map fontSizeOf items
      in foldl (\<lambda>a b. a + b) 0 fontSizes / real (length fontSizes))"

subsection \<open>Sorting\<close>

text \<open>
  \<open>Array.prototype.sort\<close> with a comparator is stable. For a comparator that is
  consistent the result is determined; for one that is not, the order is left to
  the engine, and the model fixes it as a stable insertion sort.
\<close>

fun insertBy :: "('a \<Rightarrow> 'a \<Rightarrow> real) \<Rightarrow> 'a \<Rightarrow> 'a list \<Rightarrow> 'a list" where
  "insertBy cmp a [] = [a]"
| "insertBy cmp a (b # bs) = (if cmp a b \<le> 0 then a # b # bs else b # insertBy cmp a bs)"

fun sortBy :: "('a \<Rightarrow> 'a \<Rightarrow> real) \<Rightarrow> 'a list \<Rightarrow> 'a list" where
  "sortBy cmp [] = []"
| "sortBy cmp (a # as) = insertBy cmp a (sortBy cmp as)"

text \<open>The comparator of \<open>sortedItems\<close>: top to bottom, then left to right.\<close>

definition compareItems :: "real \<Rightarrow> text_item \<Rightarrow> text_item \<Rightarrow> real" where
  "compareItems lineThreshold a b =
     (let yA = item_transform5 a;
          yB = item_transform5 b;
          yDiff = yB - yA
      in if \<bar>yDiff\<bar> > lineThreshold then yDiff
         else item_transform4 a - item_transform4 b)"

text \<open>The comparator of \<open>line.items.sort((a, b) => a.x - b.x)\<close>.\<close>

definition compareX :: "run \<Rightarrow> run \<Rightarrow> real" where
  "compareX a b = run_x a - run_x b"

subsection \<open>Grouping the sorted items into lines\<close>

text \<open>\<open>{ y, items, fontSize }\<close>; \<open>y\<close> is \<open>null\<close> in the initial \<open>currentLine\<close>.\<close>

record line =
  line_y :: "real option"
  line_items :: "run list"
  line_fontSize :: real

fun groupLines_loop :: "real \<Rightarrow> text_item list \<Rightarrow> line list \<Rightarrow> line \<Rightarrow> line list \<times> line" where
  "groupLines_loop lineThreshold [] lines currentLine = (lines, currentLine)"
| "groupLines_loop lineThreshold (item # rest) lines currentLine =
     (let y = item_transform5 item;
          fontSize = fontSizeOf item;
          newLine = (case line_y currentLine of None \<Rightarrow> True
                     | Some cy \<Rightarrow> \<bar>cy - y\<bar> > lineThreshold);
          lines1 = (if newLine \<and> line_items currentLine \<noteq> [] then lines @ [currentLine]
                    else lines);
          cur1 = (if newLine then \<lparr>line_y = Some y, line_items = [], line_fontSize = fontSize\<rparr>
                  else currentLine);
          cur2 = cur1\<lparr>line_items := line_items cur1 @
                   [\<lparr>run_x = item_transform4 item, run_text = item_str item,
                     run_width = item_width item, run_fontSize = fontSize\<rparr>]\<rparr>;
          cur3 = (if fontSize > line_fontSize cur2 then cur2\<lparr>line_fontSize := fontSize\<rparr>
                  else cur2)
      in groupLines_loop lineThreshold rest lines1 cur3)"

definition groupLines :: "real \<Rightarrow> text_item list \<Rightarrow> line list" where
  "groupLines lineThreshold sortedItems =
     (case groupLines_loop lineThreshold sortedItems []
             \<lparr>line_y = None, line_items = [], line_fontSize = 0\<rparr> of
        (lines, currentLine) \<Rightarrow>
          if line_items currentLine \<noteq> [] then lines @ [currentLine] else lines)"

subsection \<open>Column detection\<close>

text \<open>
  \<open>line.items.reduce((s, it) => s + it.x, 0) / line.items.length\<close>. For a line
  without items the quotient is \<open>0 / 0\<close>, which is \<open>NaN\<close>: the value \<open>None\<close>, for
  which every comparison is false.
\<close>

definition avgX :: "run list \<Rightarrow> real option" where
  "avgX its =
     (if its = [] then None
      else Some (foldl (\<lambda>s it. s + run_x it) 0 its / real (length its)))"

definition num_lt :: "real option \<Rightarrow> real \<Rightarrow> bool" where
  "num_lt a b = (case a of None \<Rightarrow> False | Some v \<Rightarrow> v < b)"

definition num_gt :: "real option \<Rightarrow> real \<Rightarrow> bool" where
  "num_gt a b = (case a of None \<Rightarrow> False | Some v \<Rightarrow> v > b)"

fun countColumns :: "real \<Rightarrow> line list \<Rightarrow> nat \<Rightarrow> nat \<Rightarrow> nat \<times> nat" where
  "countColumns midPage [] leftCount rightCount = (leftCount, rightCount)"
| "countColumns midPage (line # rest) leftCount rightCount =
     (let a = avgX (line_items line)
      in if num_lt a (midPage * 0.6) then countColumns midPage rest (leftCount + 1) rightCount
         else if num_gt a (midPage * 0.8) then countColumns midPage rest leftCount (rightCount + 1)
         else countColumns midPage rest leftCount rightCount)"

definition isTwoColumn :: "real \<Rightarrow> line list \<Rightarrow> bool" where
  "isTwoColumn pageWidth lines =
     (let midPage = pageWidth / 2
      in case countColumns midPage lines 0 0 of
           (leftCount, rightCount) \<Rightarrow>
             leftCount > 3 \<and> rightCount > 3 \<and>
             real (min leftCount rightCount) / real (max leftCount rightCount) > 0.25)"

subsection \<open>Text of a page\<close>

text \<open>The entries of \<open>leftLines\<close> and \<open>rightLines\<close>: \<open>{ y, text, fontSize, fullWidth }\<close>.\<close>

record column_line =
  cl_y :: "real option"
  cl_text :: jsstring
  cl_fontSize :: real
  cl_fullWidth :: bool

text \<open>
  \<open>Math.min(...xs)\<close> and \<open>Math.max(...xs)\<close>, on a list that is not empty (the span
  of a line without items is written out in \<open>splitColumns\<close>).
\<close>

fun minOf :: "real list \<Rightarrow> real" where
  "minOf [] = 0"
| "minOf [v] = v"
| "minOf (v # vs) = min v (minOf vs)"

fun maxOf :: "real list \<Rightarrow> real" where
  "maxOf [] = 0"
| "maxOf [v] = v"
| "maxOf (v # vs) = max v (maxOf vs)"

text \<open>
  The loop that fills \<open>leftLines\<close> and \<open>rightLines\<close>. A line without items has the
  span \<open>-Infinity - Infinity\<close> and the average \<open>NaN\<close>, so both tests fail and it goes
  to the right.
\<close>

fun splitColumns ::
  "real \<Rightarrow> real \<Rightarrow> line list \<Rightarrow> column_line list \<Rightarrow> column_line list \<Rightarrow>
   column_line list \<times> column_line list" where
  "splitColumns pageWidth avgFontSize [] leftLines rightLines = (leftLines, rightLines)"
| "splitColumns pageWidth avgFontSize (line # rest) leftLines rightLines =
     (let items = sortBy compareX (line_items line);
          a = avgX items;
          midPage = pageWidth / 2;
          minX = minOf (map run_x items);
          maxX = maxOf (map (\<lambda>it. run_x it + run_width it) items);
          span = maxX - minX;
          entry = \<lparr>cl_y = line_y line, cl_text = buildLineText items avgFontSize,
                   cl_fontSize = line_fontSize line, cl_fullWidth = False\<rparr>
      in if items \<noteq> [] \<and> span > pageWidth * 0.6 then
           splitColumns pageWidth avgFontSize rest
             (leftLines @ [entry\<lparr>cl_fullWidth := True\<rparr>]) rightLines
         else if num_lt a (midPage * 0.7) then
           splitColumns pageWidth avgFontSize rest (leftLines @ [entry]) rightLines
         else
           splitColumns pageWidth avgFontSize rest leftLines (rightLines @ [entry]))"

text \<open>\<open>for (const line of ls) if (line.text.trim()) pageText += line.text.trim() + '\n'\<close>\<close>

fun emitLines :: "column_line list \<Rightarrow> jsstring \<Rightarrow> jsstring" where
  "emitLines [] pageText = pageText"
| "emitLines (l # ls) pageText =
     (if trim (cl_text l) \<noteq> [] then emitLines ls (pageText @ trim (cl_text l) @ [10])
      else emitLines ls pageText)"

definition twoColumnText :: "real \<Rightarrow> real \<Rightarrow> line list \<Rightarrow> jsstring" where
  "twoColumnText pageWidth avgFontSize lines =
     (case splitColumns pageWidth avgFontSize lines [] [] of
        (leftLines, rightLines) \<Rightarrow>
          (let fullWidthLines = filter cl_fullWidth leftLines;
               pureLeftLines = filter (\<lambda>l. \<not> cl_fullWidth l) leftLines;
               t1 = emitLines fullWidthLines [];
               t2 = (if fullWidthLines \<noteq> [] \<and> (pureLeftLines \<noteq> [] \<or> rightLines \<noteq> [])
                     then t1 @ [10] else t1);
               t3 = emitLines pureLeftLines t2;
               t4 = (if pureLeftLines \<noteq> [] \<and> rightLines \<noteq> [] then t3 @ [10] else t3)
           in emitLines rightLines t4))"

fun singleColumnText :: "real \<Rightarrow> line list \<Rightarrow> jsstring \<Rightarrow> jsstring" where
  "singleColumnText avgFontSize [] pageText = pageText"
| "singleColumnText avgFontSize (line # rest) pageText =
     (let lineText = buildLineText (sortBy compareX (line_items line)) avgFontSize
      in if trim lineText \<noteq> [] then
           singleColumnText avgFontSize rest (pageText @ trim lineText @ [10])
         else singleColumnText avgFontSize rest pageText)"

text \<open>The text built from the lines of one page, from column detection on.\<close>

definition linesText :: "real \<Rightarrow> real \<Rightarrow> line list \<Rightarrow> jsstring" where
  "linesText pageWidth avgFontSize lines =
     (if isTwoColumn pageWidth lines then twoColumnText pageWidth avgFontSize lines
      else singleColumnText avgFontSize lines [])"

text \<open>The body of the page loop, for the items that passed the filter.\<close>

definition pageTextOf :: "real \<Rightarrow> text_item list \<Rightarrow> jsstring" where
  "pageTextOf pageWidth items =
     (let avgFontSize = avgFontSizeOf items;
          lineThreshold = max (avgFontSize * 0.4) 2;
          sortedItems = sortBy (compareItems lineThreshold) items;
          lines = groupLines lineThreshold sortedItems
      in linesText pageWidth avgFontSize lines)"

section \<open>Post-processing: the text normalizer\<close>

text \<open>
  Every \<open>replace\<close> with a global regular expression scans the string from the left:
  where the expression matches, the match is replaced and the scan goes on behind
  it; where it does not, the code unit is kept. No expression of
  \<open>postProcessText\<close> matches the empty string. Each one is written as the
  recursive function that does this scan.
\<close>

definition isLineTerminator :: "nat \<Rightarrow> bool" where
  "isLineTerminator c \<longleftrightarrow> c = 10 \<or> c = 13 \<or> c = 8232 \<or> c = 8233"

text \<open>\<open>$\<close> with the flag \<open>m\<close>: the end of the input, or a line terminator follows.\<close>

fun atLineEnd :: "jsstring \<Rightarrow> bool" where
  "atLineEnd [] = True"
| "atLineEnd (c # cs) = isLineTerminator c"

text \<open>The class of step 1: \<open>a-z\<close>, \<open>A-Z\<close>, U+00C0 to U+00FF, \<open>0-9\<close>.\<close>

definition isAlnumLatin :: "nat \<Rightarrow> bool" where
  "isAlnumLatin c \<longleftrightarrow>
     (97 \<le> c \<and> c \<le> 122) \<or> (65 \<le> c \<and> c \<le> 90) \<or> (192 \<le> c \<and> c \<le> 255) \<or>
     (48 \<le> c \<and> c \<le> 57)"

text \<open>
  Step 1: one or two code units outside this class that make up a whole line
  (\<open>^\<close>, the negated class with \<open>{1,2}\<close>, \<open>$\<close>, flags \<open>gm\<close>) are replaced by the
  empty string. The flag \<open>bol\<close> says that the scan stands at the start of the
  input or behind a line terminator. The negated class also matches line
  terminators. The quantifier is greedy: two code units are tried first, then one.
\<close>

fun removeNoise :: "bool \<Rightarrow> jsstring \<Rightarrow> jsstring" where
  "removeNoise bol [] = []"
| "removeNoise bol [c] = (if bol \<and> \<not> isAlnumLatin c then [] else [c])"
| "removeNoise bol (c # d # ds) =
     (if bol \<and> \<not> isAlnumLatin c \<and> \<not> isAlnumLatin d \<and> atLineEnd ds then
        removeNoise (isLineTerminator d) ds
      else if bol \<and> \<not> isAlnumLatin c \<and> isLineTerminator d then
        removeNoise (isLineTerminator c) (d # ds)
      else c # removeNoise (isLineTerminator c) (d # ds))"

text \<open>\<open>\w\<close>\<close>

definition isWordChar :: "nat \<Rightarrow> bool" where
  "isWordChar c \<longleftrightarrow>
     (97 \<le> c \<and> c \<le> 122) \<or> (65 \<le> c \<and> c \<le> 90) \<or> (48 \<le> c \<and> c \<le> 57) \<or> c = 95"

text \<open>Step 2, \<open>/(\w)-\n(\w)/g\<close> replaced by \<open>$1$2\<close>.\<close>

fun joinHyphenated :: "jsstring \<Rightarrow> jsstring" where
  "joinHyphenated (a # b # c # d # rest) =
     (if isWordChar a \<and> b = 45 \<and> c = 10 \<and> isWordChar d then a # d # joinHyphenated rest
      else a # joinHyphenated (b # c # d # rest))"
| "joinHyphenated (a # rest) = a # joinHyphenated rest"
| "joinHyphenated [] = []"

text \<open>
  A greedy run \<open>[class]{n,}\<close> replaced by \<open>r\<close>: the longest run of the class at the
  position is taken; a run shorter than \<open>n\<close> is no match, and neither is any
  position inside it.
\<close>

function collapseRuns :: "(nat \<Rightarrow> bool) \<Rightarrow> nat \<Rightarrow> jsstring \<Rightarrow> jsstring \<Rightarrow> jsstring" where
  "collapseRuns cls n r [] = []"
| "collapseRuns cls n r (c # cs) =
     (if cls c \<and> n \<le> length (takeWhile cls (c # cs)) then
        r @ collapseRuns cls n r (dropWhile cls cs)
      else c # collapseRuns cls n r cs)"
  by pat_completeness auto
termination
  by (relation "measure (\<lambda>(cls, n, r, s). length s)")
     (auto simp: length_dropWhile_le less_Suc_eq_le)

text \<open>Step 3, \<open>/\n{4,}/g\<close> replaced by three newlines.\<close>

definition collapseBlankLines :: "jsstring \<Rightarrow> jsstring" where
  "collapseBlankLines s = collapseRuns (\<lambda>c. c = 10) 4 [10, 10, 10] s"

text \<open>Step 4, first \<open>/[ \t]{3,}/g\<close> replaced by four spaces.\<close>

definition collapseWideGaps :: "jsstring \<Rightarrow> jsstring" where
  "collapseWideGaps s = collapseRuns (\<lambda>c. c = 32 \<or> c = 9) 3 (js ''    '') s"

text \<open>
  Step 4, then \<open>/ {2}(?! )/g\<close> replaced by one space: two spaces behind which no
  space follows.
\<close>

fun collapseDoubleSpaces :: "jsstring \<Rightarrow> jsstring" where
  "collapseDoubleSpaces (a # b # rest) =
     (if a = 32 \<and> b = 32 \<and> (case rest of [] \<Rightarrow> True | c # cs \<Rightarrow> c \<noteq> 32) then
        32 # collapseDoubleSpaces rest
      else a # collapseDoubleSpaces (b # rest))"
| "collapseDoubleSpaces [a] = [a]"
| "collapseDoubleSpaces [] = []"

text \<open>Step 5: \<open>|\<close> becomes \<open>l\<close>, \<open>{\<close> becomes \<open>(\<close>, \<open>}\<close> becomes \<open>)\<close>.\<close>

definition fixMisread :: "nat \<Rightarrow> nat" where
  "fixMisread c = (if c = 124 then 108 else if c = 123 then 40 else if c = 125 then 41 else c)"

text \<open>The class of step 6: \<open>.\<close>, \<open>-\<close>, \<open>_\<close>, \<open>=\<close>, U+2022 and U+00B7.\<close>

definition isDecorative :: "nat \<Rightarrow> bool" where
  "isDecorative c \<longleftrightarrow> c = 46 \<or> c = 45 \<or> c = 95 \<or> c = 61 \<or> c = 8226 \<or> c = 183"

text \<open>
  Step 6: three or more code units of this class that make up a whole line
  (\<open>^\<close>, the class with \<open>{3,}\<close>, \<open>$\<close>, flags \<open>gm\<close>) are replaced by the empty
  string. A run that is not followed by the end of a line is no match, and a
  shorter part of it ends before a decorative code unit, which is no line
  terminator.
\<close>

function removeDecorative :: "bool \<Rightarrow> jsstring \<Rightarrow> jsstring" where
  "removeDecorative bol [] = []"
| "removeDecorative bol (c # cs) =
     (if bol \<and> isDecorative c \<and> 3 \<le> length (takeWhile isDecorative (c # cs)) \<and>
         atLineEnd (dropWhile isDecorative cs) then
        removeDecorative False (dropWhile isDecorative cs)
      else c # removeDecorative (isLineTerminator c) cs)"
  by pat_completeness auto
termination
  by (relation "measure (\<lambda>(bol, s). length s)")
     (auto simp: length_dropWhile_le less_Suc_eq_le)

text \<open>Step 7: \<open>split('\n')\<close>, \<open>trim\<close> of each line, \<open>join('\n')\<close>.\<close>

fun splitLF :: "jsstring \<Rightarrow> jsstring list" where
  "splitLF [] = [[]]"
| "splitLF (c # cs) =
     (if c = 10 then [] # splitLF cs
      else (case splitLF cs of [] \<Rightarrow> [[c]] | p # ps \<Rightarrow> (c # p) # ps))"

fun joinLF :: "jsstring list \<Rightarrow> jsstring" where
  "joinLF [] = []"
| "joinLF [p] = p"
| "joinLF (p # ps) = p @ 10 # joinLF ps"

definition trimLines :: "jsstring \<Rightarrow> jsstring" where
  "trimLines s = joinLF (map trim (splitLF s))"

text \<open>Step 8: \<open>/^\n+/\<close> and \<open>/\n+$/\<close>, without flags, replaced by the empty string.\<close>

definition trimBlankLines :: "jsstring \<Rightarrow> jsstring" where
  "trimBlankLines s = rev (dropWhile (\<lambda>c. c = 10) (rev (dropWhile (\<lambda>c. c = 10) s)))"

text \<open>
  Step 9. The section headers are alternatives of literal code units, two of them
  with an optional \<open>s\<close> and with \<open>\s*\<close>. The flag \<open>i\<close> lets a letter of the
  expression match itself and its capital: the letters are ASCII letters, U+00E9
  and U+00EA, whose capitals are 32 below, and no other code unit has one of these
  capitals as its canonical form.
\<close>

datatype pat = Lit nat | Opt nat | Spaces

definition toUpper :: "nat \<Rightarrow> nat" where
  "toUpper p = (if (97 \<le> p \<and> p \<le> 122) \<or> (224 \<le> p \<and> p \<le> 254 \<and> p \<noteq> 247) then p - 32 else p)"

definition ciEq :: "nat \<Rightarrow> nat \<Rightarrow> bool" where
  "ciEq p c \<longleftrightarrow> c = p \<or> c = toUpper p"

text \<open>
  The number of code units that one alternative matches at the start of the input.
  The quantifiers are greedy. Taking less never helps here: behind the optional
  \<open>s\<close> comes \<open>\s*\<close> and then \<open>p\<close>, or the end of the alternative, and behind \<open>\s*\<close>
  comes a letter.
\<close>

fun matchPat :: "pat list \<Rightarrow> jsstring \<Rightarrow> nat option" where
  "matchPat [] s = Some 0"
| "matchPat (Lit p # ps) [] = None"
| "matchPat (Lit p # ps) (c # cs) =
     (if ciEq p c then map_option Suc (matchPat ps cs) else None)"
| "matchPat (Opt p # ps) [] = matchPat ps []"
| "matchPat (Opt p # ps) (c # cs) =
     (if ciEq p c then map_option Suc (matchPat ps cs) else matchPat ps (c # cs))"
| "matchPat (Spaces # ps) s =
     (let n = length (takeWhile isWhiteSpace s)
      in map_option (\<lambda>k. n + k) (matchPat ps (drop n s)))"

text \<open>The first alternative that matches wins.\<close>

fun matchFirst :: "pat list list \<Rightarrow> jsstring \<Rightarrow> nat option" where
  "matchFirst [] s = None"
| "matchFirst (alt # alts) s =
     (case matchPat alt s of Some k \<Rightarrow> Some k | None \<Rightarrow> matchFirst alts s)"

definition lit :: "string \<Rightarrow> pat list" where
  "lit s = map Lit (js s)"

definition sectionHeaders :: "pat list list" where
  "sectionHeaders =
     [lit ''exp'' @ [Lit 233] @ lit ''rience'', lit ''experience'', lit ''formation'',
      lit ''education'', lit ''comp'' @ [Lit 233] @ lit ''tences'', lit ''skills'',
      lit ''langues'', lit ''languages'', lit ''certifications'', lit ''projets'',
      lit ''projects'', lit ''profil'', lit ''profile'',
      lit ''r'' @ [Lit 233] @ lit ''sum'' @ [Lit 233], lit ''summary'', lit ''contact'',
      lit ''r'' @ [Lit 233] @ lit ''f'' @ [Lit 233] @ lit ''rences'', lit ''references'',
      lit ''objectif'', lit ''objective'',
      lit ''centres d'' @ [Lit 39] @ lit ''int'' @ [Lit 233] @ lit ''r'' @ [Lit 234] @ lit ''t'',
      lit ''hobbies'',
      lit ''information'' @ [Opt 115, Spaces] @ lit ''personnelle'' @ [Opt 115],
      lit ''personal'' @ [Spaces] @ lit ''info'']"

text \<open>
  \<open>/(\S)\n(^(...))/gim\<close> replaced by \<open>$1\n\n$2\<close>: behind a code unit that is no
  white space and a newline, a section header gets one more newline in front.
\<close>

fun separateHeaders :: "jsstring \<Rightarrow> jsstring" where
  "separateHeaders (c # d # rest) =
     (if \<not> isWhiteSpace c \<and> d = 10 then
        (case matchFirst sectionHeaders rest of
           Some k \<Rightarrow> c # 10 # 10 # take k rest @ separateHeaders (drop k rest)
         | None \<Rightarrow> c # separateHeaders (d # rest))
      else c # separateHeaders (d # rest))"
| "separateHeaders [c] = [c]"
| "separateHeaders [] = []"

definition postProcessText :: "jsstring \<Rightarrow> jsstring" where
  "postProcessText text =
     (if text = [] then []
      else
        (let cleaned = removeNoise True text;
             cleaned = joinHyphenated cleaned;
             cleaned = collapseBlankLines cleaned;
             cleaned = collapseWideGaps cleaned;
             cleaned = collapseDoubleSpaces cleaned;
             cleaned = map fixMisread cleaned;
             cleaned = removeDecorative True cleaned;
             cleaned = trimLines cleaned;
             cleaned = trimBlankLines cleaned
         in separateHeaders cleaned))"

section \<open>Strategy 2: OCR\<close>

subsection \<open>Image preprocessing\<close>

text \<open>
  The \<open>ImageData\<close> of the canvas: its \<open>data\<close> is a \<open>Uint8ClampedArray\<close> with four
  bytes (red, green, blue, alpha) for each pixel.
\<close>

record image_data =
  img_width :: nat
  img_height :: nat
  img_data :: "8 word list"

text \<open>
  \<open>Math.round(0.299 * data[i] + 0.587 * data[i + 1] + 0.114 * data[i + 2])\<close>.
  \<open>Math.round\<close> rounds half up, as \<open>round\<close> does. A read beyond the array is
  \<open>undefined\<close> and makes the sum \<open>NaN\<close>: the value \<open>None\<close>.
\<close>

definition luminance :: "8 word list \<Rightarrow> nat \<Rightarrow> int option" where
  "luminance data i =
     (if i + 2 < length data then
        Some (round (0.299 * real (unat (data ! i)) + 0.587 * real (unat (data ! (i + 1))) +
                     0.114 * real (unat (data ! (i + 2)))))
      else None)"

text \<open>The histogram loop; \<open>histogram[NaN]++\<close> leaves the 256 bins as they are.\<close>

function histogram_loop :: "8 word list \<Rightarrow> nat \<Rightarrow> nat list \<Rightarrow> nat list" where
  "histogram_loop data i histogram =
     (if i < length data then
        histogram_loop data (i + 4)
          (case luminance data i of
             None \<Rightarrow> histogram
           | Some gray \<Rightarrow> histogram[nat gray := histogram ! nat gray + 1])
      else histogram)"
  by pat_completeness auto
termination
  by (relation "measure (\<lambda>(data, i, histogram). length data - i)") auto

text \<open>The loop that finds \<open>lowVal\<close> and \<open>highVal\<close>; it returns both.\<close>

function percentile_loop :: "nat list \<Rightarrow> nat \<Rightarrow> nat \<Rightarrow> nat \<Rightarrow> nat \<Rightarrow> nat \<Rightarrow> nat \<times> nat" where
  "percentile_loop histogram totalPixels i cumulative lowVal highVal =
     (if i < 256 then
        (let cumulative1 = cumulative + histogram ! i;
             lowVal1 = (if real cumulative1 \<ge> real totalPixels * 0.02 \<and> lowVal = 0 then i
                        else lowVal)
         in if real cumulative1 \<ge> real totalPixels * 0.98 then (lowVal1, i)
            else percentile_loop histogram totalPixels (i + 1) cumulative1 lowVal1 highVal)
      else (lowVal, highVal))"
  by pat_completeness auto
termination
  by (relation "measure (\<lambda>(histogram, totalPixels, i, cumulative, lowVal, highVal). 256 - i)")
     auto

text \<open>Contrast stretch, clamp and gamma correction of one gray value.\<close>

definition stretchGray :: "int \<Rightarrow> int \<Rightarrow> int \<Rightarrow> int" where
  "stretchGray lowVal valRange gray =
     (let g1 = round ((real_of_int (gray - lowVal) / real_of_int valRange) * 255);
          g2 = max 0 (min 255 g1)
      in round (255 * (real_of_int g2 / 255) powr 0.85))"

text \<open>A store into the \<open>Uint8ClampedArray\<close>: clamped to 0..255, \<open>NaN\<close> stored as 0.\<close>

definition toUint8Clamped :: "int option \<Rightarrow> 8 word" where
  "toUint8Clamped g = (case g of None \<Rightarrow> 0 | Some v \<Rightarrow> word_of_int (max 0 (min 255 v)))"

text \<open>
  The second loop over the pixels. A store beyond the end of a typed array is
  ignored, as \<open>list_update\<close> ignores it.
\<close>

function stretch_loop :: "int \<Rightarrow> int \<Rightarrow> 8 word list \<Rightarrow> nat \<Rightarrow> 8 word list" where
  "stretch_loop lowVal valRange data i =
     (if i < length data then
        (let gray = toUint8Clamped (map_option (stretchGray lowVal valRange) (luminance data i))
         in stretch_loop lowVal valRange (data[i := gray, i + 1 := gray, i + 2 := gray]) (i + 4))
      else data)"
  by pat_completeness auto
termination
  by (relation "measure (\<lambda>(lowVal, valRange, data, i). length data - i)") auto

definition preprocessCanvasForOCR :: "image_data \<Rightarrow> image_data" where
  "preprocessCanvasForOCR sourceCanvas =
     (let w = img_width sourceCanvas;
          h = img_height sourceCanvas;
          data = img_data sourceCanvas;
          histogram = histogram_loop data 0 (replicate 256 0);
          totalPixels = w * h
      in case percentile_loop histogram totalPixels 0 0 0 255 of
           (lowVal, highVal) \<Rightarrow>
             (let valRange = (if int highVal - int lowVal = 0 then 1 else int highVal - int lowVal)
              in sourceCanvas\<lparr>img_data := stretch_loop (int lowVal) valRange data 0\<rparr>))"

subsection \<open>Reconstruction of the text of a recognised page\<close>

text \<open>
  The result of \<open>worker.recognize\<close>: \<open>data.text\<close> and \<open>data.blocks\<close>, with blocks of
  paragraphs of lines of words. A list that may be missing is an option; a missing
  text is the empty string, which the code treats alike.
\<close>

record ocr_word =
  word_text :: jsstring
  word_confidence :: real

record ocr_line =
  line_words :: "ocr_word list option"

record ocr_paragraph =
  paragraph_lines :: "ocr_line list option"

record ocr_block =
  block_paragraphs :: "ocr_paragraph list option"

record ocr_data =
  data_text :: jsstring
  data_blocks :: "ocr_block list option"

fun reconstructLine :: "ocr_word list \<Rightarrow> jsstring \<Rightarrow> jsstring" where
  "reconstructLine [] lineText = lineText"
| "reconstructLine (word # rest) lineText =
     (if word_confidence word > 30 \<and> word_text word \<noteq> [] \<and> trim (word_text word) \<noteq> [] then
        reconstructLine rest
          ((if lineText \<noteq> [] then lineText @ js '' '' else lineText) @ trim (word_text word))
      else reconstructLine rest lineText)"

fun reconstructParagraph :: "ocr_line list \<Rightarrow> jsstring \<Rightarrow> jsstring" where
  "reconstructParagraph [] paraText = paraText"
| "reconstructParagraph (line # rest) paraText =
     (case line_words line of
        None \<Rightarrow> reconstructParagraph rest paraText
      | Some ws \<Rightarrow>
          (let lineText = reconstructLine ws []
           in if trim lineText \<noteq> [] then
                reconstructParagraph rest (paraText @ trim lineText @ [10])
              else reconstructParagraph rest paraText))"

fun reconstructBlock :: "ocr_paragraph list \<Rightarrow> jsstring \<Rightarrow> jsstring" where
  "reconstructBlock [] result = result"
| "reconstructBlock (paragraph # rest) result =
     (case paragraph_lines paragraph of
        None \<Rightarrow> reconstructBlock rest result
      | Some ls \<Rightarrow>
          (let paraText = reconstructParagraph ls []
           in if trim paraText \<noteq> [] then
                reconstructBlock rest (result @ trim paraText @ [10, 10])
              else reconstructBlock rest result))"

fun reconstructBlocks :: "ocr_block list \<Rightarrow> jsstring \<Rightarrow> jsstring" where
  "reconstructBlocks [] result = result"
| "reconstructBlocks (block # rest) result =
     (case block_paragraphs block of
        None \<Rightarrow> reconstructBlocks rest result
      | Some ps \<Rightarrow> reconstructBlocks rest (reconstructBlock ps result))"

definition reconstructTextFromOCRData :: "ocr_data \<Rightarrow> jsstring" where
  "reconstructTextFromOCRData data =
     (case data_blocks data of
        None \<Rightarrow> data_text data
      | Some blocks \<Rightarrow>
          if blocks \<noteq> [] then
            (let result = reconstructBlocks blocks []
             in if result \<noteq> [] then result else data_text data)
          else data_text data)"

section \<open>The document, the recognition capability and the pipeline\<close>

datatype error = LoadError | RenderError | RecognitionError

text \<open>
  A page of the loaded document: the width of its viewport at scale 1, what
  \<open>getTextContent\<close> gives (it may fail, and \<open>items\<close> may be missing), and what
  \<open>renderPageToImage(page, 3.0)\<close> gives.
\<close>

record page =
  page_width :: real
  page_textContent :: "error + text_item list option"
  page_render :: "error + image_data"

record pdf =
  pdf_numPages :: nat
  pdf_getPage :: "nat \<Rightarrow> error + page"

text \<open>
  The Tesseract worker: whether \<open>createWorker\<close> and \<open>setParameters\<close> fail, and what
  \<open>recognize\<close> gives for the image of the page with a given number.
  \<open>terminate\<close> does not fail.
\<close>

record ocr_engine =
  createWorker :: "error option"
  setParameters :: "error option"
  recognize :: "nat \<Rightarrow> image_data \<Rightarrow> error + ocr_data"

text \<open>
  What the pipeline does to the outside, in order: the calls on the worker and the
  notifications \<open>{phase, progress, page, totalPages}\<close> it sends itself. The
  notifications of the worker's own logger are not part of the model.
\<close>

datatype phase = PhaseText | PhaseOcrInit | PhaseOcrPage | PhaseOcrDone

datatype event =
    CreateWorker
  | SetParameters
  | Recognize nat
  | Terminate
  | Progress phase int "nat option" "nat option"

text \<open>\<open>if (onProgress) onProgress(...)\<close>\<close>

definition report :: "bool \<Rightarrow> event \<Rightarrow> event list \<Rightarrow> event list" where
  "report onProgress ev trace = (if onProgress then trace @ [ev] else trace)"

definition pageBreak :: jsstring where
  "pageBreak = 10 # js ''---'' @ [10]"

definition MIN_TEXT_THRESHOLD :: nat where
  "MIN_TEXT_THRESHOLD = 80"

subsection \<open>Standard extraction over the pages\<close>

function extractWithStandardMethod_loop :: "pdf \<Rightarrow> nat \<Rightarrow> nat \<Rightarrow> jsstring \<Rightarrow> error + jsstring" where
  "extractWithStandardMethod_loop pdf numPages i fullText =
     (if i \<le> numPages then
        (case pdf_getPage pdf i of
           Inl e \<Rightarrow> Inl e
         | Inr page \<Rightarrow>
             (case page_textContent page of
                Inl e \<Rightarrow> Inl e
              | Inr None \<Rightarrow> extractWithStandardMethod_loop pdf numPages (i + 1) fullText
              | Inr (Some allItems) \<Rightarrow>
                  if allItems = [] then
                    extractWithStandardMethod_loop pdf numPages (i + 1) fullText
                  else
                    (let items = filter (\<lambda>item. item_str item \<noteq> [] \<and> trim (item_str item) \<noteq> [])
                                   allItems
                     in if items = [] then
                          extractWithStandardMethod_loop pdf numPages (i + 1) fullText
                        else
                          extractWithStandardMethod_loop pdf numPages (i + 1)
                            ((fullText @ pageTextOf (page_width page) items) @
                             (if i < numPages then pageBreak else [])))))
      else Inr fullText)"
  by pat_completeness auto
termination
  by (relation "measure (\<lambda>(pdf, numPages, i, fullText). Suc numPages - i)") auto

definition extractWithStandardMethod :: "pdf \<Rightarrow> nat \<Rightarrow> error + jsstring" where
  "extractWithStandardMethod pdf numPages = extractWithStandardMethod_loop pdf numPages 1 []"

subsection \<open>OCR over the pages\<close>

text \<open>The loop inside \<open>try\<close>.\<close>

function extractWithOCR_loop ::
  "pdf \<Rightarrow> nat \<Rightarrow> bool \<Rightarrow> ocr_engine \<Rightarrow> nat \<Rightarrow> jsstring \<Rightarrow> event list \<Rightarrow>
   (error + jsstring) \<times> event list" where
  "extractWithOCR_loop pdf numPages onProgress worker i fullText trace =
     (if i \<le> numPages then
        (let trace1 = report onProgress
               (Progress PhaseOcrPage (round (real (i - 1) / real numPages * 100))
                  (Some i) (Some numPages)) trace
         in case pdf_getPage pdf i of
              Inl e \<Rightarrow> (Inl e, trace1)
            | Inr page \<Rightarrow>
                (case page_render page of
                   Inl e \<Rightarrow> (Inl e, trace1)
                 | Inr canvas \<Rightarrow>
                     (case recognize worker i (preprocessCanvasForOCR canvas) of
                        Inl e \<Rightarrow> (Inl e, trace1 @ [Recognize i])
                      | Inr data \<Rightarrow>
                          (let fullText1 =
                                 (if data_text data \<noteq> [] \<and> trim (data_text data) \<noteq> [] then
                                    fullText @ reconstructTextFromOCRData data
                                  else fullText);
                               fullText2 =
                                 (if i < numPages then fullText1 @ pageBreak else fullText1)
                           in extractWithOCR_loop pdf numPages onProgress worker (i + 1)
                                fullText2 (trace1 @ [Recognize i])))))
      else (Inr fullText, trace))"
  by pat_completeness auto
termination
  by (relation "measure (\<lambda>(pdf, numPages, onProgress, worker, i, fullText, trace).
                  Suc numPages - i)") auto

text \<open>
  \<open>createWorker\<close> and \<open>setParameters\<close> are awaited before \<open>try\<close>; \<open>finally\<close> calls
  \<open>terminate\<close> when the loop has ended or thrown.
\<close>

definition extractWithOCR ::
  "pdf \<Rightarrow> nat \<Rightarrow> bool \<Rightarrow> ocr_engine \<Rightarrow> event list \<Rightarrow> (error + jsstring) \<times> event list" where
  "extractWithOCR pdf numPages onProgress worker trace =
     (case createWorker worker of
        Some e \<Rightarrow> (Inl e, trace @ [CreateWorker])
      | None \<Rightarrow>
          (case setParameters worker of
             Some e \<Rightarrow> (Inl e, trace @ [CreateWorker, SetParameters])
           | None \<Rightarrow>
               (case extractWithOCR_loop pdf numPages onProgress worker 1 []
                       (trace @ [CreateWorker, SetParameters]) of
                  (Inl e, trace1) \<Rightarrow> (Inl e, trace1 @ [Terminate])
                | (Inr fullText, trace1) \<Rightarrow>
                    (Inr fullText,
                     report onProgress
                       (Progress PhaseOcrDone 100 (Some numPages) (Some numPages))
                       (trace1 @ [Terminate])))))"

subsection \<open>The orchestrator\<close>

datatype extraction_method = MethodText | MethodOcr

record outcome =
  out_text :: jsstring
  out_numPages :: nat
  out_method :: extraction_method

text \<open>
  \<open>extractTextFromPDF(file, onProgress)\<close>. The file is given by what
  \<open>getDocument\<close> makes of its bytes: an error or the loaded document.
\<close>

definition extractTextFromPDF ::
  "error + pdf \<Rightarrow> bool \<Rightarrow> ocr_engine \<Rightarrow> (error + outcome) \<times> event list" where
  "extractTextFromPDF file onProgress worker =
     (case file of
        Inl e \<Rightarrow> (Inl e, [])
      | Inr pdf \<Rightarrow>
          (let numPages = pdf_numPages pdf;
               trace0 = report onProgress (Progress PhaseText 0 None None) []
           in case extractWithStandardMethod pdf numPages of
                Inl e \<Rightarrow> (Inl e, trace0)
              | Inr standardText \<Rightarrow>
                  (let trace1 = report onProgress (Progress PhaseText 100 None None) trace0
                   in if length (trim standardText) \<ge> MIN_TEXT_THRESHOLD then
                        (Inr \<lparr>out_text = postProcessText standardText, out_numPages = numPages,
                              out_method = MethodText\<rparr>, trace1)
                      else
                        (let trace2 = report onProgress
                               (Progress PhaseOcrInit 0 (Some 0) (Some numPages)) trace1
                         in case extractWithOCR pdf numPages onProgress worker trace2 of
                              (Inl e, trace3) \<Rightarrow> (Inl e, trace3)
                            | (Inr ocrText, trace3) \<Rightarrow>
                                (Inr \<lparr>out_text = postProcessText ocrText,
                                      out_numPages = numPages, out_method = MethodOcr\<rparr>,
                                 trace3)))))"

section \<open>Notions used to state the properties\<close>

subsection \<open>Words kept in a recognised line\<close>

text \<open>Strings joined by single spaces.\<close>

fun joinSpaces :: "jsstring list \<Rightarrow> jsstring" where
  "joinSpaces [] = []"
| "joinSpaces [w] = w"
| "joinSpaces (w # ws) = w @ js '' '' @ joinSpaces ws"

definition confident :: "ocr_word \<Rightarrow> bool" where
  "confident word \<longleftrightarrow> word_confidence word > 30"

text \<open>
  The line in the words of the specification: the texts of the words whose
  confidence exceeds 30, joined by single spaces.
\<close>

definition line_spec :: "ocr_word list \<Rightarrow> jsstring" where
  "line_spec ws = joinSpaces (map word_text (filter confident ws))"

definition hasText :: "ocr_word \<Rightarrow> bool" where
  "hasText word \<longleftrightarrow> trim (word_text word) \<noteq> []"

text \<open>
  The trimmed texts of the words whose confidence exceeds 30 and whose text is not
  blank, in their order.
\<close>

definition keptWords :: "ocr_word list \<Rightarrow> jsstring list" where
  "keptWords ws =
     map (\<lambda>word. trim (word_text word)) (filter (\<lambda>word. confident word \<and> hasText word) ws)"

subsection \<open>Pages and their text\<close>

text \<open>The text-bearing runs of a page: the items whose trimmed \<open>str\<close> is not empty.\<close>

definition textBearing :: "text_item list option \<Rightarrow> text_item list" where
  "textBearing textContent =
     (case textContent of None \<Rightarrow> []
      | Some allItems \<Rightarrow> filter (\<lambda>item. trim (item_str item) \<noteq> []) allItems)"

text \<open>
  The text that a recognised page adds to \<open>fullText\<close>: nothing when the flat text is
  empty or blank, else the reconstruction.
\<close>

definition ocrPageText :: "ocr_data \<Rightarrow> jsstring" where
  "ocrPageText data =
     (if trim (data_text data) \<noteq> [] then reconstructTextFromOCRData data else [])"

text \<open>
  What the OCR loop obtains for the page with number \<open>i\<close>: the page is fetched,
  rendered, preprocessed and recognised, and any of these may fail. The pages from
  \<open>i\<close> on are recognised when none of them fails, and the text of the document
  from page \<open>i\<close> on is then what the pages add, each followed by the page-break
  marker unless it is the last.
\<close>

definition recognizedPage :: "pdf \<Rightarrow> ocr_engine \<Rightarrow> nat \<Rightarrow> error + ocr_data" where
  "recognizedPage pdf worker i =
     (case pdf_getPage pdf i of
        Inl e \<Rightarrow> Inl e
      | Inr page \<Rightarrow>
          (case page_render page of
             Inl e \<Rightarrow> Inl e
           | Inr canvas \<Rightarrow> recognize worker i (preprocessCanvasForOCR canvas)))"

definition ocrDocumentText :: "pdf \<Rightarrow> ocr_engine \<Rightarrow> nat \<Rightarrow> nat \<Rightarrow> jsstring" where
  "ocrDocumentText pdf worker numPages i =
     concat (map (\<lambda>j. (case recognizedPage pdf worker j of
                          Inl e \<Rightarrow> []
                        | Inr data \<Rightarrow> ocrPageText data) @
                       (if j < numPages then pageBreak else []))
               [i..<Suc numPages])"

definition pagesRecognized :: "pdf \<Rightarrow> ocr_engine \<Rightarrow> nat \<Rightarrow> nat \<Rightarrow> bool" where
  "pagesRecognized pdf worker numPages i =
     list_all (\<lambda>j. case recognizedPage pdf worker j of Inl e \<Rightarrow> False | Inr data \<Rightarrow> True)
       [i..<Suc numPages]"

subsection \<open>Lines of a page\<close>







subsection \<open>The gray value of a pixel\<close>

text \<open>
  \<open>lowVal\<close> and \<open>range\<close> as the preprocessor computes them for an image, and the
  byte it stores for the pixel with number \<open>p\<close>: the stretched and corrected
  luminance of the red, green and blue bytes of that pixel.
\<close>

definition contrastBounds :: "image_data \<Rightarrow> int \<times> int" where
  "contrastBounds sourceCanvas =
     (case percentile_loop (histogram_loop (img_data sourceCanvas) 0 (replicate 256 0))
             (img_width sourceCanvas * img_height sourceCanvas) 0 0 0 255 of
        (lowVal, highVal) \<Rightarrow>
          (int lowVal, if int highVal - int lowVal = 0 then 1 else int highVal - int lowVal))"

definition grayOfPixel :: "image_data \<Rightarrow> nat \<Rightarrow> 8 word" where
  "grayOfPixel sourceCanvas p =
     (case contrastBounds sourceCanvas of
        (lowVal, valRange) \<Rightarrow>
          toUint8Clamped (map_option (stretchGray lowVal valRange)
                            (luminance (img_data sourceCanvas) (4 * p))))"

section \<open>Example inputs\<close>

text \<open>A line with a blank word of high confidence between two words.\<close>

definition exampleWords :: "ocr_word list" where
  "exampleWords =
     [\<lparr>word_text = js ''a'', word_confidence = 50\<rparr>,
      \<lparr>word_text = js '' '', word_confidence = 50\<rparr>,
      \<lparr>word_text = js ''b'', word_confidence = 50\<rparr>]"

text \<open>
  A document of two pages: the first without any text item, the second with the
  single run \<open>Hello\<close>; each renders to an image of one pixel.
\<close>

definition exampleImage :: image_data where
  "exampleImage = \<lparr>img_width = 1, img_height = 1, img_data = [10, 20, 30, 40]\<rparr>"

definition blankPage :: page where
  "blankPage = \<lparr>page_width = 100, page_textContent = Inr (Some []), page_render = Inr exampleImage\<rparr>"

definition helloPage :: page where
  "helloPage =
     \<lparr>page_width = 100,
      page_textContent = Inr (Some [\<lparr>item_str = js ''Hello'', item_transform3 = 12,
        item_transform4 = 10, item_transform5 = 700, item_height = 12, item_width = 30\<rparr>]),
      page_render = Inr exampleImage\<rparr>"

definition examplePdf :: pdf where
  "examplePdf =
     \<lparr>pdf_numPages = 2,
      pdf_getPage = (\<lambda>i. if i = 1 then Inr blankPage else if i = 2 then Inr helloPage
                         else Inl LoadError)\<rparr>"

text \<open>
  Recognition results: one with a blank flat text whose only word has confidence
  90, and one with the flat text \<open>raw\<close> whose only word has confidence 10.
\<close>

definition blankTextData :: ocr_data where
  "blankTextData =
     \<lparr>data_text = js ''  '',
      data_blocks = Some [\<lparr>block_paragraphs = Some [\<lparr>paragraph_lines = Some
        [\<lparr>line_words = Some [\<lparr>word_text = js ''Hello'', word_confidence = 90\<rparr>]\<rparr>]\<rparr>]\<rparr>]\<rparr>"

definition lowConfidenceData :: ocr_data where
  "lowConfidenceData =
     \<lparr>data_text = js ''raw'',
      data_blocks = Some [\<lparr>block_paragraphs = Some [\<lparr>paragraph_lines = Some
        [\<lparr>line_words = Some [\<lparr>word_text = js ''xx'', word_confidence = 10\<rparr>]\<rparr>]\<rparr>]\<rparr>]\<rparr>"

text \<open>
  A worker that recognises the first page as \<open>blankTextData\<close> and any other as
  \<open>lowConfidenceData\<close>, and a worker whose \<open>setParameters\<close> fails.
\<close>

definition exampleWorker :: ocr_engine where
  "exampleWorker =
     \<lparr>createWorker = None, setParameters = None,
      recognize = (\<lambda>i image. if i = 1 then Inr blankTextData else Inr lowConfidenceData)\<rparr>"

definition failingConfigWorker :: ocr_engine where
  "failingConfigWorker =
     \<lparr>createWorker = None, setParameters = Some RecognitionError,
      recognize = (\<lambda>i image. Inr lowConfidenceData)\<rparr>"

text \<open>A document of one page with a single run of 81 code units.\<close>

definition longPage :: page where
  "longPage =
     \<lparr>page_width = 600,
      page_textContent = Inr (Some [\<lparr>item_str =
          js ''Software engineer with ten years of practice in distributed systems and databases'',
        item_transform3 = 12, item_transform4 = 50, item_transform5 = 700, item_height = 12,
        item_width = 480\<rparr>]),
      page_render = Inl RenderError\<rparr>"

definition longPdf :: pdf where
  "longPdf = \<lparr>pdf_numPages = 1, pdf_getPage = (\<lambda>i. if i = 1 then Inr longPage else Inl LoadError)\<rparr>"





section \<open>Evaluation of the definitions\<close>

text \<open>
  The loops over page numbers unfold only on request. The collections below hold
  the defining equations that evaluate the model on a concrete input.
\<close>

declare extractWithOCR_loop.simps [simp del]
declare extractWithStandardMethod_loop.simps [simp del]
declare histogram_loop.simps [simp del]
declare percentile_loop.simps [simp del]
declare stretch_loop.simps [simp del]

lemmas classes_eval = isWhiteSpace_def isLineTerminator_def isAlnumLatin_def isWordChar_def
  isDecorative_def fixMisread_def toUpper_def ciEq_def

lemmas normalizer_eval = postProcessText_def collapseBlankLines_def collapseWideGaps_def
  trimLines_def trimBlankLines_def sectionHeaders_def lit_def

lemmas layout_eval = pageTextOf_def avgFontSizeOf_def fontSizeOf_def compareItems_def
  compareX_def groupLines_def linesText_def isTwoColumn_def avgX_def num_lt_def num_gt_def
  twoColumnText_def

lemmas pipeline_eval = extractWithOCR_loop.simps extractWithStandardMethod_loop.simps
  extractTextFromPDF_def extractWithStandardMethod_def extractWithOCR_def report_def
  pageBreak_def MIN_TEXT_THRESHOLD_def reconstructTextFromOCRData_def


lemmas examples_eval = examplePdf_def blankPage_def helloPage_def exampleImage_def
  exampleWorker_def blankTextData_def lowConfidenceData_def failingConfigWorker_def
  longPage_def longPdf_def

lemma trim_Nil [simp]: "trim [] = []"
  by (simp add: trim_def)

section \<open>Line building: spacing between adjacent runs\<close>

lemma buildLineText_from_acc:
  "buildLineText_from a p xs (acc @ t) = acc @ buildLineText_from a p xs t"
  by (induction xs arbitrary: p t) (simp_all add: Let_def)


lemma buildLineText_from_text:
  "buildLineText_from a n ys (acc @ run_text n) = acc @ buildLineText (n # ys) a"
  by (simp add: buildLineText_from_acc)




section \<open>Reconstruction of a recognised line\<close>

lemma joinSpaces_Cons: "ws \<noteq> [] \<Longrightarrow> joinSpaces (w # ws) = w @ js '' '' @ joinSpaces ws"
  by (cases ws) simp_all

lemma joinSpaces_Nil_iff: "(\<forall>w \<in> set ws. w \<noteq> []) \<Longrightarrow> joinSpaces ws = [] \<longleftrightarrow> ws = []"
  by (induction ws rule: joinSpaces.induct) auto

lemma keptWords_nonempty: "\<forall>w \<in> set (keptWords ws). w \<noteq> []"
  by (auto simp: keptWords_def hasText_def)

lemma reconstructLine_acc:
  "reconstructLine ws acc =
     (if keptWords ws = [] then acc
      else if acc = [] then joinSpaces (keptWords ws)
      else acc @ js '' '' @ joinSpaces (keptWords ws))"
proof (induction ws arbitrary: acc)
  case Nil
  then show ?case by (simp add: keptWords_def)
next
  case (Cons word ws)
  show ?case
  proof (cases "confident word \<and> hasText word")
    case False
    then have "keptWords (word # ws) = keptWords ws"
      by (auto simp: keptWords_def)
    moreover from False have "reconstructLine (word # ws) acc = reconstructLine ws acc"
      by (auto simp: confident_def hasText_def)
    ultimately show ?thesis
      using Cons.IH [of acc] by simp
  next
    case True
    let ?t = "trim (word_text word)"
    from True have t: "?t \<noteq> []" and wt: "word_text word \<noteq> []"
      by (auto simp: hasText_def)
    from True have k: "keptWords (word # ws) = ?t # keptWords ws"
      by (simp add: keptWords_def)
    from True wt have step: "reconstructLine (word # ws) acc =
        reconstructLine ws ((if acc \<noteq> [] then acc @ js '' '' else acc) @ ?t)"
      by (simp add: confident_def hasText_def)
    show ?thesis
    proof (cases "keptWords ws = []")
      case True
      with step k t show ?thesis
        using Cons.IH [of "(if acc \<noteq> [] then acc @ js '' '' else acc) @ ?t"] by simp
    next
      case False
      with step k t show ?thesis
        using Cons.IH [of "(if acc \<noteq> [] then acc @ js '' '' else acc) @ ?t"]
        by (simp add: joinSpaces_Cons)
    qed
  qed
qed

text \<open>
  C6, as amended. The text of a recognised line is made of exactly the words whose
  confidence exceeds 30 and whose text is not blank, each trimmed, in their order
  and joined by single spaces. Words with the confidences 10, 45 and 92 give the
  second and the third word, joined by a space.
\<close>

theorem reconstructLine_keeps:
  "reconstructLine ws [] = joinSpaces (keptWords ws) \<and>
   reconstructLine
     [\<lparr>word_text = js ''foo'', word_confidence = 10\<rparr>,
      \<lparr>word_text = js ''bar'', word_confidence = 45\<rparr>,
      \<lparr>word_text = js ''baz'', word_confidence = 92\<rparr>] [] = js ''bar baz''"
proof
  show "reconstructLine ws [] = joinSpaces (keptWords ws)"
    by (simp add: reconstructLine_acc)
  show "reconstructLine
     [\<lparr>word_text = js ''foo'', word_confidence = 10\<rparr>,
      \<lparr>word_text = js ''bar'', word_confidence = 45\<rparr>,
      \<lparr>word_text = js ''baz'', word_confidence = 92\<rparr>] [] = js ''bar baz''"
    by (simp add: js_def trim_def isWhiteSpace_def)
qed

text \<open>
  C6, as stated, fails: a word of confidence 50 whose text is a single space is not
  kept, so the line of the code differs from the join of all words whose confidence
  exceeds 30.
\<close>

theorem reconstructLine_blank_word_counterexample:
  "reconstructLine exampleWords [] = js ''a b'' \<and> line_spec exampleWords = js ''a   b'' \<and>
   reconstructLine exampleWords [] \<noteq> line_spec exampleWords"
  by (simp add: exampleWords_def line_spec_def confident_def js_def trim_def isWhiteSpace_def)

section \<open>Standard extraction: pages without text\<close>

lemma textBearing_filter:
  "filter (\<lambda>item. item_str item \<noteq> [] \<and> trim (item_str item) \<noteq> []) allItems =
   textBearing (Some allItems)"
  unfolding textBearing_def by (auto intro: filter_cong)

text \<open>
  C2, as amended. In the standard path a page that has no text-bearing run (its
  items are missing, or none has a trimmed text that is not empty) contributes
  nothing at all: the loop goes on to the next page with \<open>fullText\<close> unchanged, so
  neither text nor a page-break marker is added, whether or not the page is the
  last one.
\<close>

theorem emptyPage_contributes_nothing:
  assumes "i \<le> numPages"
    and "pdf_getPage pdf i = Inr page"
    and "page_textContent page = Inr textContent"
    and "textBearing textContent = []"
  shows "extractWithStandardMethod_loop pdf numPages i fullText =
         extractWithStandardMethod_loop pdf numPages (i + 1) fullText"
proof (cases textContent)
  case None
  with assms show ?thesis
    by (subst extractWithStandardMethod_loop.simps) simp
next
  case (Some allItems)
  with assms have "textBearing (Some allItems) = []"
    by simp
  with assms Some show ?thesis
    by (subst extractWithStandardMethod_loop.simps) (simp add: textBearing_filter Let_def)
qed

text \<open>The first page of the example document is such a page.\<close>

theorem emptyPage_contributes_nothing_witness:
  "(1::nat) \<le> 2 \<and> pdf_getPage examplePdf 1 = Inr blankPage \<and>
   page_textContent blankPage = Inr (Some []) \<and> textBearing (Some []) = [] \<and>
   extractWithStandardMethod_loop examplePdf 2 1 [] =
   extractWithStandardMethod_loop examplePdf 2 (1 + 1) []"
  using emptyPage_contributes_nothing [of 1 2 examplePdf blankPage "Some []" "[]"]
  by (simp add: examplePdf_def blankPage_def textBearing_def)

text \<open>
  C2, as stated, fails: the first page of the example document has no text item and
  is not the last page, and the text of the document is \<open>Hello\<close> and a newline,
  without the page-break marker in front.
\<close>

theorem emptyPage_marker_counterexample:
  "pdf_getPage examplePdf 1 = Inr blankPage \<and> page_textContent blankPage = Inr (Some []) \<and>
   (1::nat) < pdf_numPages examplePdf \<and>
   extractWithStandardMethod examplePdf (pdf_numPages examplePdf) = Inr (js ''Hello'' @ [10]) \<and>
   extractWithStandardMethod examplePdf (pdf_numPages examplePdf) \<noteq>
     Inr (pageBreak @ js ''Hello'' @ [10])"
  by (simp add: pipeline_eval examples_eval layout_eval js_def trim_def classes_eval Let_def)

section \<open>OCR: the lifetime of the worker\<close>

lemma extractWithOCR_loop_step:
  assumes "i \<le> numPages"
    and "pdf_getPage pdf i = Inr page"
    and "page_render page = Inr canvas"
    and "recognize worker i (preprocessCanvasForOCR canvas) = Inr data"
  shows "extractWithOCR_loop pdf numPages onProgress worker i fullText trace =
         extractWithOCR_loop pdf numPages onProgress worker (i + 1)
           (fullText @ ocrPageText data @ (if i < numPages then pageBreak else []))
           (report onProgress
              (Progress PhaseOcrPage (round (real (i - 1) / real numPages * 100))
                 (Some i) (Some numPages)) trace @ [Recognize i])"
proof -
  have "data_text data \<noteq> [] \<and> trim (data_text data) \<noteq> [] \<longleftrightarrow> trim (data_text data) \<noteq> []"
    by auto
  with assms show ?thesis
    by (subst extractWithOCR_loop.simps) (simp add: Let_def ocrPageText_def)
qed

lemma extractWithOCR_loop_text:
  assumes "pagesRecognized pdf worker numPages i"
  shows "fst (extractWithOCR_loop pdf numPages onProgress worker i fullText trace) =
         Inr (fullText @ ocrDocumentText pdf worker numPages i)"
  using assms
proof (induction "Suc numPages - i" arbitrary: i fullText trace)
  case 0
  then have "\<not> i \<le> numPages"
    by simp
  then show ?case
    by (subst extractWithOCR_loop.simps) (simp add: ocrDocumentText_def)
next
  case (Suc k)
  then have le: "i \<le> numPages"
    by simp
  then have range: "[i..<Suc numPages] = i # [i + 1..<Suc numPages]"
    by (simp add: upt_conv_Cons)
  from Suc.prems range obtain data where
    data: "recognizedPage pdf worker i = Inr data"
    and rest: "pagesRecognized pdf worker numPages (i + 1)"
    by (auto simp: pagesRecognized_def split: sum.splits)
  from data obtain page canvas where
    page: "pdf_getPage pdf i = Inr page" and canvas: "page_render page = Inr canvas"
    and rec: "recognize worker i (preprocessCanvasForOCR canvas) = Inr data"
    by (auto simp: recognizedPage_def split: sum.splits)
  from Suc.hyps(2) have k: "k = Suc numPages - (i + 1)"
    by simp
  have doc: "ocrDocumentText pdf worker numPages i =
             (ocrPageText data @ (if i < numPages then pageBreak else [])) @
             ocrDocumentText pdf worker numPages (i + 1)"
    unfolding ocrDocumentText_def range by (simp add: data)
  show ?case
    unfolding extractWithOCR_loop_step [OF le page canvas rec] Suc.hyps(1) [OF k rest] doc
    by simp
qed

lemma extractWithOCR_text:
  assumes "createWorker worker = None" and "setParameters worker = None"
    and "pagesRecognized pdf worker numPages 1"
  shows "fst (extractWithOCR pdf numPages onProgress worker trace) =
         Inr (ocrDocumentText pdf worker numPages 1)"
  using assms extractWithOCR_loop_text [OF assms(3), of onProgress "[]"
          "trace @ [CreateWorker, SetParameters]"]
  by (auto simp: extractWithOCR_def split: prod.splits sum.splits)

lemma configuration_failure_general:
  assumes "createWorker worker = None" and "setParameters worker = Some e"
  shows "extractWithOCR pdf numPages onProgress worker trace =
         (Inl e, trace @ [CreateWorker, SetParameters])"
  using assms by (simp add: extractWithOCR_def)

lemma extractWithOCR_loop_trace:
  "set trace \<subseteq> set (snd (extractWithOCR_loop pdf numPages onProgress worker i fullText trace))"
proof (induction "Suc numPages - i" arbitrary: i fullText trace)
  case 0
  then have "\<not> i \<le> numPages"
    by simp
  then show ?case
    by (subst extractWithOCR_loop.simps) simp
next
  case (Suc k)
  then have le: "i \<le> numPages"
    by simp
  let ?trace1 = "report onProgress
               (Progress PhaseOcrPage (round (real (i - 1) / real numPages * 100))
                  (Some i) (Some numPages)) trace"
  have sub: "set trace \<subseteq> set ?trace1"
    by (auto simp: report_def)
  show ?case
  proof (cases "pdf_getPage pdf i")
    case (Inl e)
    with le sub show ?thesis
      by (subst extractWithOCR_loop.simps) (simp add: Let_def)
  next
    case (Inr page)
    note page = this
    show ?thesis
    proof (cases "page_render page")
      case (Inl e)
      with le sub page show ?thesis
        by (subst extractWithOCR_loop.simps) (simp add: Let_def)
    next
      case (Inr canvas)
      note canvas = this
      show ?thesis
      proof (cases "recognize worker i (preprocessCanvasForOCR canvas)")
        case (Inl e)
        with le sub page canvas show ?thesis
          by (subst extractWithOCR_loop.simps) (auto simp: Let_def)
      next
        case (Inr data)
        from Suc.hyps(2) have k: "k = Suc numPages - (i + 1)"
          by simp
        have "set (?trace1 @ [Recognize i]) \<subseteq>
              set (snd (extractWithOCR_loop pdf numPages onProgress worker i fullText trace))"
          unfolding extractWithOCR_loop_step [OF le page canvas Inr]
          by (rule Suc.hyps(1) [OF k])
        with sub show ?thesis
          by auto
      qed
    qed
  qed
qed

lemma extractWithOCR_creates_worker:
  "CreateWorker \<in> set (snd (extractWithOCR pdf numPages onProgress worker trace))"
proof -
  have "CreateWorker \<in> set (snd (extractWithOCR_loop pdf numPages onProgress worker 1 []
           (trace @ [CreateWorker, SetParameters])))"
    using extractWithOCR_loop_trace
            [of "trace @ [CreateWorker, SetParameters]" pdf numPages onProgress worker 1 "[]"]
    by auto
  then show ?thesis
    by (auto simp: extractWithOCR_def report_def split: option.splits sum.splits prod.splits)
qed

lemma worker_released_after_configuration:
  assumes "createWorker worker = None" and "setParameters worker = None"
  shows "Terminate \<in> set (snd (extractWithOCR pdf numPages onProgress worker trace))"
  using assms
  by (auto simp: extractWithOCR_def report_def split: option.splits sum.splits prod.splits)

text \<open>
  C3 at the failing input: the standard text of the example document is shorter
  than 80, the worker is created, and \<open>setParameters\<close> fails. The error reaches
  the caller and \<open>terminate\<close> has not been called.
\<close>

theorem configuration_failure_leaks_worker:
  "extractTextFromPDF (Inr examplePdf) False failingConfigWorker =
     (Inl RecognitionError, [CreateWorker, SetParameters]) \<and>
   Terminate \<notin> set (snd (extractTextFromPDF (Inr examplePdf) False failingConfigWorker))"
  by (simp add: pipeline_eval examples_eval layout_eval js_def trim_def classes_eval Let_def)

section \<open>OCR: what a page contributes\<close>



section \<open>The orchestrator\<close>

text \<open>
  C8. Whenever the extraction of a loaded document returns an outcome, by either
  method, its \<open>numPages\<close> is the page count of the document.
\<close>

theorem numPages_is_page_count:
  assumes "extractTextFromPDF (Inr pdf) onProgress worker = (Inr out, trace)"
  shows "out_numPages out = pdf_numPages pdf"
  using assms
  by (auto simp: extractTextFromPDF_def Let_def split: sum.splits if_splits prod.splits)

text \<open>
  The example document, read by OCR, has two pages; the document of one page is
  read as text.
\<close>

theorem numPages_is_page_count_witness:
  "extractTextFromPDF (Inr examplePdf) False exampleWorker =
     (Inr \<lparr>out_text = js ''raw'', out_numPages = 2, out_method = MethodOcr\<rparr>,
      [CreateWorker, SetParameters, Recognize 1, Recognize 2, Terminate]) \<and>
   out_numPages \<lparr>out_text = js ''raw'', out_numPages = 2, out_method = MethodOcr\<rparr> =
     pdf_numPages examplePdf \<and>
   extractTextFromPDF (Inr longPdf) False exampleWorker =
     (Inr \<lparr>out_text =
             js ''Software engineer with ten years of practice in distributed systems and databases'',
           out_numPages = 1, out_method = MethodText\<rparr>, []) \<and>
   out_numPages \<lparr>out_text =
             js ''Software engineer with ten years of practice in distributed systems and databases'',
           out_numPages = 1, out_method = MethodText\<rparr> = pdf_numPages longPdf"
proof -
  have ocr: "extractTextFromPDF (Inr examplePdf) False exampleWorker =
     (Inr \<lparr>out_text = js ''raw'', out_numPages = 2, out_method = MethodOcr\<rparr>,
      [CreateWorker, SetParameters, Recognize 1, Recognize 2, Terminate])"
    by (simp add: pipeline_eval examples_eval layout_eval js_def trim_def classes_eval Let_def
          normalizer_eval)
  have textRun: "extractTextFromPDF (Inr longPdf) False exampleWorker =
     (Inr \<lparr>out_text =
             js ''Software engineer with ten years of practice in distributed systems and databases'',
           out_numPages = 1, out_method = MethodText\<rparr>, [])"
    by (simp add: pipeline_eval examples_eval layout_eval js_def trim_def classes_eval Let_def
          normalizer_eval)
  from numPages_is_page_count [OF ocr] numPages_is_page_count [OF textRun] ocr textRun show ?thesis
    by simp
qed

text \<open>
  C1. For a loaded document whose standard extraction gives \<open>standardText\<close>: the
  pipeline returns the method \<open>text\<close> without ever calling \<open>createWorker\<close> if and
  only if the trimmed length of \<open>standardText\<close> is at least 80, and then it does
  return, with the normalized standard text. Otherwise \<open>createWorker\<close> is called,
  and the pipeline ends as the OCR path does: with its error, or else with the
  method \<open>ocr\<close> and the normalized text of the OCR path; and when the worker is
  created and configured and every page is recognised, it does return, with the
  normalized text that the recognised pages add up to.
\<close>

theorem extractTextFromPDF_method:
  assumes "extractWithStandardMethod pdf (pdf_numPages pdf) = Inr standardText"
  shows "(((\<exists>out. fst (extractTextFromPDF (Inr pdf) onProgress worker) = Inr out \<and>
                 out_method out = MethodText) \<and>
           CreateWorker \<notin> set (snd (extractTextFromPDF (Inr pdf) onProgress worker))) \<longleftrightarrow>
          80 \<le> length (trim standardText)) \<and>
         (80 \<le> length (trim standardText) \<longrightarrow>
            fst (extractTextFromPDF (Inr pdf) onProgress worker) =
              Inr \<lparr>out_text = postProcessText standardText, out_numPages = pdf_numPages pdf,
                   out_method = MethodText\<rparr>) \<and>
         (length (trim standardText) < 80 \<longrightarrow>
            CreateWorker \<in> set (snd (extractTextFromPDF (Inr pdf) onProgress worker)) \<and>
            (case extractWithOCR pdf (pdf_numPages pdf) onProgress worker
                    (report onProgress (Progress PhaseOcrInit 0 (Some 0) (Some (pdf_numPages pdf)))
                       (report onProgress (Progress PhaseText 100 None None)
                          (report onProgress (Progress PhaseText 0 None None) []))) of
               (Inl e, trace) \<Rightarrow>
                 extractTextFromPDF (Inr pdf) onProgress worker = (Inl e, trace)
             | (Inr ocrText, trace) \<Rightarrow>
                 extractTextFromPDF (Inr pdf) onProgress worker =
                   (Inr \<lparr>out_text = postProcessText ocrText, out_numPages = pdf_numPages pdf,
                         out_method = MethodOcr\<rparr>, trace))) \<and>
         (length (trim standardText) < 80 \<and> createWorker worker = None \<and>
          setParameters worker = None \<and> pagesRecognized pdf worker (pdf_numPages pdf) 1 \<longrightarrow>
            fst (extractTextFromPDF (Inr pdf) onProgress worker) =
              Inr \<lparr>out_text = postProcessText (ocrDocumentText pdf worker (pdf_numPages pdf) 1),
                   out_numPages = pdf_numPages pdf, out_method = MethodOcr\<rparr>)"
proof -
  let ?run = "extractTextFromPDF (Inr pdf) onProgress worker"
  let ?n = "pdf_numPages pdf"
  let ?trace2 = "report onProgress (Progress PhaseOcrInit 0 (Some 0) (Some ?n))
                   (report onProgress (Progress PhaseText 100 None None)
                      (report onProgress (Progress PhaseText 0 None None) []))"
  let ?ocr = "extractWithOCR pdf ?n onProgress worker ?trace2"
  have textBranch: "?run =
      (Inr \<lparr>out_text = postProcessText standardText, out_numPages = ?n, out_method = MethodText\<rparr>,
       report onProgress (Progress PhaseText 100 None None)
         (report onProgress (Progress PhaseText 0 None None) []))"
    if "80 \<le> length (trim standardText)"
    using that assms by (simp add: extractTextFromPDF_def MIN_TEXT_THRESHOLD_def Let_def)
  have ocrBranch: "?run =
      (case ?ocr of
         (Inl e, trace) \<Rightarrow> (Inl e, trace)
       | (Inr ocrText, trace) \<Rightarrow>
           (Inr \<lparr>out_text = postProcessText ocrText, out_numPages = ?n, out_method = MethodOcr\<rparr>,
            trace))"
    if "length (trim standardText) < 80"
    using that assms by (simp add: extractTextFromPDF_def MIN_TEXT_THRESHOLD_def Let_def)
  have created: "CreateWorker \<in> set (snd ?run)" if "length (trim standardText) < 80"
    using ocrBranch [OF that] extractWithOCR_creates_worker [of pdf ?n onProgress worker ?trace2]
    by (auto split: prod.splits sum.splits)
  have notCreated: "CreateWorker \<notin> set (snd ?run)" if "80 \<le> length (trim standardText)"
    using textBranch [OF that] by (auto simp: report_def)
  have third: "case ?ocr of
               (Inl e, trace) \<Rightarrow> ?run = (Inl e, trace)
             | (Inr ocrText, trace) \<Rightarrow>
                 ?run = (Inr \<lparr>out_text = postProcessText ocrText, out_numPages = ?n,
                         out_method = MethodOcr\<rparr>, trace)"
    if "length (trim standardText) < 80"
    using ocrBranch [OF that] by (auto split: prod.splits sum.splits)
  have first: "((\<exists>out. fst ?run = Inr out \<and> out_method out = MethodText) \<and>
           CreateWorker \<notin> set (snd ?run)) \<longleftrightarrow> 80 \<le> length (trim standardText)"
  proof (cases "80 \<le> length (trim standardText)")
    case True
    with textBranch [OF True] notCreated [OF True] show ?thesis
      by simp
  next
    case False
    then have "length (trim standardText) < 80"
      by simp
    from created [OF this] False show ?thesis
      by simp
  qed
  have fourth: "fst ?run =
      Inr \<lparr>out_text = postProcessText (ocrDocumentText pdf worker ?n 1), out_numPages = ?n,
           out_method = MethodOcr\<rparr>"
    if "length (trim standardText) < 80" and "createWorker worker = None"
      and "setParameters worker = None" and "pagesRecognized pdf worker ?n 1"
    using ocrBranch [OF that(1)] extractWithOCR_text [OF that(2,3,4), of onProgress ?trace2]
    by (auto split: prod.splits sum.splits)
  from first textBranch created third fourth show ?thesis
    by simp
qed

text \<open>
  The one-page document with 81 code units is read by the method \<open>text\<close> and no
  worker is created; for the example document, with 5 code units, one is.
\<close>

theorem extractTextFromPDF_method_witness:
  "extractWithStandardMethod longPdf (pdf_numPages longPdf) =
     Inr (js ''Software engineer with ten years of practice in distributed systems and databases''
          @ [10]) \<and>
   fst (extractTextFromPDF (Inr longPdf) False exampleWorker) =
     Inr \<lparr>out_text =
            js ''Software engineer with ten years of practice in distributed systems and databases'',
          out_numPages = 1, out_method = MethodText\<rparr> \<and>
   CreateWorker \<notin> set (snd (extractTextFromPDF (Inr longPdf) False exampleWorker)) \<and>
   extractWithStandardMethod examplePdf (pdf_numPages examplePdf) = Inr (js ''Hello'' @ [10]) \<and>
   CreateWorker \<in> set (snd (extractTextFromPDF (Inr examplePdf) False exampleWorker)) \<and>
   pagesRecognized examplePdf exampleWorker (pdf_numPages examplePdf) 1 \<and>
   ocrDocumentText examplePdf exampleWorker (pdf_numPages examplePdf) 1 = pageBreak @ js ''raw'' \<and>
   fst (extractTextFromPDF (Inr examplePdf) False exampleWorker) =
     Inr \<lparr>out_text = postProcessText (pageBreak @ js ''raw''), out_numPages = 2,
          out_method = MethodOcr\<rparr>"
proof -
  have rec: "pagesRecognized examplePdf exampleWorker (pdf_numPages examplePdf) 1"
    by (simp add: pagesRecognized_def recognizedPage_def examples_eval upt_conv_Cons)
  have doc: "ocrDocumentText examplePdf exampleWorker (pdf_numPages examplePdf) 1 =
             pageBreak @ js ''raw''"
    by (simp add: ocrDocumentText_def recognizedPage_def ocrPageText_def examples_eval
          upt_conv_Cons reconstructTextFromOCRData_def js_def trim_def classes_eval Let_def)
  have long: "extractWithStandardMethod longPdf (pdf_numPages longPdf) =
     Inr (js ''Software engineer with ten years of practice in distributed systems and databases''
          @ [10])"
    by (simp add: pipeline_eval examples_eval layout_eval js_def trim_def classes_eval Let_def)
  have short: "extractWithStandardMethod examplePdf (pdf_numPages examplePdf) =
     Inr (js ''Hello'' @ [10])"
    by (simp add: pipeline_eval examples_eval layout_eval js_def trim_def classes_eval Let_def)
  have post: "postProcessText
     (js ''Software engineer with ten years of practice in distributed systems and databases''
          @ [10]) =
     js ''Software engineer with ten years of practice in distributed systems and databases''"
    by (simp add: js_def trim_def classes_eval normalizer_eval)
  have len: "length (trim (js ''Hello'' @ [10])) < 80"
    by (simp add: js_def trim_def classes_eval)
  have worker: "createWorker exampleWorker = None" "setParameters exampleWorker = None"
    by (simp_all add: exampleWorker_def)
  have n: "pdf_numPages examplePdf = 2" "pdf_numPages longPdf = 1"
    by (simp_all add: examplePdf_def longPdf_def)
  note shortDoc = extractTextFromPDF_method [OF short, of False exampleWorker]
  from shortDoc len have created:
    "CreateWorker \<in> set (snd (extractTextFromPDF (Inr examplePdf) False exampleWorker))"
    by blast
  from shortDoc len worker rec have
    "fst (extractTextFromPDF (Inr examplePdf) False exampleWorker) =
       Inr \<lparr>out_text = postProcessText
                (ocrDocumentText examplePdf exampleWorker (pdf_numPages examplePdf) 1),
            out_numPages = pdf_numPages examplePdf, out_method = MethodOcr\<rparr>"
    by blast
  with created have ocr:
    "CreateWorker \<in> set (snd (extractTextFromPDF (Inr examplePdf) False exampleWorker)) \<and>
     fst (extractTextFromPDF (Inr examplePdf) False exampleWorker) =
       Inr \<lparr>out_text = postProcessText (pageBreak @ js ''raw''), out_numPages = 2,
            out_method = MethodOcr\<rparr>"
    unfolding n doc [unfolded n] by simp
  have long80: "80 \<le> length (trim
     (js ''Software engineer with ten years of practice in distributed systems and databases''
          @ [10]))"
    by (simp add: js_def trim_def classes_eval)
  note longDoc = extractTextFromPDF_method [OF long, of False exampleWorker]
  from longDoc long80 have
    "fst (extractTextFromPDF (Inr longPdf) False exampleWorker) =
       Inr \<lparr>out_text = postProcessText
         (js ''Software engineer with ten years of practice in distributed systems and databases''
          @ [10]),
            out_numPages = pdf_numPages longPdf, out_method = MethodText\<rparr>"
    by blast
  moreover from longDoc long80 have
    "CreateWorker \<notin> set (snd (extractTextFromPDF (Inr longPdf) False exampleWorker))"
    by blast
  ultimately have textRun: "fst (extractTextFromPDF (Inr longPdf) False exampleWorker) =
     Inr \<lparr>out_text =
            js ''Software engineer with ten years of practice in distributed systems and databases'',
          out_numPages = 1, out_method = MethodText\<rparr> \<and>
     CreateWorker \<notin> set (snd (extractTextFromPDF (Inr longPdf) False exampleWorker))"
    unfolding post n by simp
  from long short rec doc ocr textRun show ?thesis
    by (intro conjI) simp_all
qed

section \<open>Lines, columns and the text of a page\<close>


lemma length_insertBy [simp]: "length (insertBy cmp a xs) = Suc (length xs)"
  by (induction xs) auto

lemma length_sortBy [simp]: "length (sortBy cmp xs) = length xs"
  by (induction xs) auto

lemma set_insertBy [simp]: "set (insertBy cmp a xs) = insert a (set xs)"
  by (induction xs) auto

lemma set_sortBy [simp]: "set (sortBy cmp xs) = set xs"
  by (induction xs) auto



lemma sortBy_Nil_iff [simp]: "sortBy cmp xs = [] \<longleftrightarrow> xs = []"
  by (metis length_sortBy length_0_conv)







lemma fontSizeOf_pos: "0 < fontSizeOf item"
  by (simp add: fontSizeOf_def)

lemma foldl_add_pos:
  "(\<forall>v \<in> set vs. 0 < v) \<Longrightarrow> (0::real) \<le> a \<Longrightarrow> vs \<noteq> [] \<Longrightarrow> 0 < foldl (\<lambda>a b. a + b) a vs"
proof (induction vs arbitrary: a)
  case Nil
  then show ?case by simp
next
  case (Cons v vs)
  show ?case
  proof (cases "vs = []")
    case True
    with Cons.prems show ?thesis by simp
  next
    case False
    with Cons.prems Cons.IH [of "a + v"] show ?thesis by simp
  qed
qed

lemma avgFontSizeOf_pos: "items \<noteq> [] \<Longrightarrow> 0 < avgFontSizeOf items"
  unfolding avgFontSizeOf_def Let_def
  by (intro divide_pos_pos foldl_add_pos) (auto simp: fontSizeOf_pos)

lemma groupLines_loop_nonempty:
  assumes "\<forall>l \<in> set lines. line_items l \<noteq> []"
    and "groupLines_loop lineThreshold sortedItems lines currentLine = (lines', currentLine')"
  shows "\<forall>l \<in> set lines'. line_items l \<noteq> []"
  using assms
proof (induction sortedItems arbitrary: lines currentLine)
  case Nil
  then show ?case by simp
next
  case (Cons item rest)
  from Cons.prems(2) show ?case
    by (simp only: groupLines_loop.simps Let_def)
       (erule Cons.IH [rotated], use Cons.prems(1) in auto)
qed

lemma groupLines_nonempty: "\<forall>l \<in> set (groupLines lineThreshold sortedItems). line_items l \<noteq> []"
proof -
  obtain lines currentLine where
    r: "groupLines_loop lineThreshold sortedItems []
          \<lparr>line_y = None, line_items = [], line_fontSize = 0\<rparr> = (lines, currentLine)"
    by (cases "groupLines_loop lineThreshold sortedItems []
          \<lparr>line_y = None, line_items = [], line_fontSize = 0\<rparr>")
  from groupLines_loop_nonempty [OF _ r] have "\<forall>l \<in> set lines. line_items l \<noteq> []"
    by simp
  then show ?thesis
    by (auto simp: groupLines_def r)
qed


lemma emitLines_concat:
  "emitLines ls pageText =
     pageText @ concat (map (\<lambda>l. if trim (cl_text l) \<noteq> [] then trim (cl_text l) @ [10] else []) ls)"
  by (induction ls arbitrary: pageText) simp_all







section \<open>The text normalizer on runs of spaces\<close>

text \<open>
  Step 4 on any run of three or more spaces and tabs that stands between two other
  code units: the run becomes three spaces.
\<close>

lemma takeWhile_run:
  "\<forall>c \<in> set run. P c \<Longrightarrow> \<not> P b \<Longrightarrow> takeWhile P (run @ b # rest) = run"
  by (induction run) auto

lemma dropWhile_run:
  "\<forall>c \<in> set run. P c \<Longrightarrow> \<not> P b \<Longrightarrow> dropWhile P (run @ b # rest) = b # rest"
  by (induction run) auto

lemma wide_gap_general:
  assumes run: "\<forall>c \<in> set run. c = 32 \<or> c = 9" and len: "3 \<le> length run"
    and a: "a \<noteq> 32" "a \<noteq> 9" and b: "b \<noteq> 32" "b \<noteq> 9"
  shows "collapseDoubleSpaces (collapseWideGaps ([a] @ run @ [b])) = [a] @ js ''   '' @ [b]"
proof -
  from len obtain c cs where rc: "run = c # cs"
    by (cases run) auto
  let ?P = "\<lambda>c. c = 32 \<or> c = (9::nat)"
  have tw: "takeWhile ?P (run @ [b]) = run"
    using run b by (intro takeWhile_run) auto
  have dw: "dropWhile ?P (cs @ [b]) = [b]"
    using run b rc by (intro dropWhile_run) auto
  have c: "?P c"
    using run rc by simp
  have "collapseWideGaps ([a] @ run @ [b]) = [a] @ js ''    '' @ [b]"
    using a b c len tw dw unfolding collapseWideGaps_def rc
    by (simp add: js_def)
  then show ?thesis
    using a b by (simp add: js_def)
qed

text \<open>
  C7 at the failing input: five spaces between two words become four by the first
  replacement of step 4, and the second replacement, which matches the last two
  spaces of any run, makes three of them; the normalizer returns three spaces. Two
  spaces become one.
\<close>

theorem wide_gap_becomes_three_spaces:
  "collapseWideGaps (js ''Name     Date'') = js ''Name    Date'' \<and>
   collapseDoubleSpaces (js ''Name    Date'') = js ''Name   Date'' \<and>
   postProcessText (js ''Name     Date'') = js ''Name   Date'' \<and>
   postProcessText (js ''a  b'') = js ''a b''"
  by (simp add: js_def trim_def classes_eval normalizer_eval)

section \<open>Image preprocessing: channels\<close>

lemma luminance_update:
  assumes "i + 2 < k"
  shows "luminance (data[i := a, i + 1 := b, i + 2 := c]) k = luminance data k"
  using assms by (simp add: luminance_def)

lemma stretch_loop_props:
  assumes "i mod 4 = 0"
  shows "length (stretch_loop l r data i) = length data \<and>
         (\<forall>j. j < length data \<and> (j < i \<or> j mod 4 = 3) \<longrightarrow>
              stretch_loop l r data i ! j = data ! j) \<and>
         (\<forall>p. i \<le> 4 * p \<and> 4 * p + 2 < length data \<longrightarrow>
              stretch_loop l r data i ! (4 * p) =
                toUint8Clamped (map_option (stretchGray l r) (luminance data (4 * p))) \<and>
              stretch_loop l r data i ! (4 * p + 1) = stretch_loop l r data i ! (4 * p) \<and>
              stretch_loop l r data i ! (4 * p + 2) = stretch_loop l r data i ! (4 * p))"
  using assms
proof (induction l r data i rule: stretch_loop.induct)
  case (1 l r data i)
  show ?case
  proof (cases "i < length data")
    case False
    then show ?thesis
      by (subst stretch_loop.simps, subst stretch_loop.simps, subst stretch_loop.simps) auto
  next
    case True
    define g where "g = toUint8Clamped (map_option (stretchGray l r) (luminance data i))"
    define data' where "data' = data[i := g, i + 1 := g, i + 2 := g]"
    have unfold: "stretch_loop l r data i = stretch_loop l r data' (i + 4)"
      using True by (subst stretch_loop.simps) (simp add: Let_def g_def data'_def)
    have len: "length data' = length data"
      by (simp add: data'_def)
    have mod4: "(i + 4) mod 4 = 0"
      using "1.prems" by presburger
    note IH = "1.IH" [OF True g_def mod4, folded data'_def, unfolded len]
    have same: "data' ! j = data ! j" if "j < i \<or> j mod 4 = 3" for j
    proof -
      from that "1.prems" have "j \<noteq> i" "j \<noteq> i + 1" "j \<noteq> i + 2"
        by presburger+
      then show ?thesis
        by (simp add: data'_def)
    qed
    have part1: "length (stretch_loop l r data i) = length data"
      using IH unfold by simp
    have part2: "stretch_loop l r data i ! j = data ! j"
      if "j < length data \<and> (j < i \<or> j mod 4 = 3)" for j
    proof -
      from that have "j < i + 4 \<or> j mod 4 = 3"
        by auto
      with that IH have "stretch_loop l r data' (i + 4) ! j = data' ! j"
        by blast
      with same that unfold show ?thesis
        by simp
    qed
    have part3: "stretch_loop l r data i ! (4 * p) =
                toUint8Clamped (map_option (stretchGray l r) (luminance data (4 * p))) \<and>
              stretch_loop l r data i ! (4 * p + 1) = stretch_loop l r data i ! (4 * p) \<and>
              stretch_loop l r data i ! (4 * p + 2) = stretch_loop l r data i ! (4 * p)"
      if p: "i \<le> 4 * p \<and> 4 * p + 2 < length data" for p
    proof (cases "4 * p = i")
      case True
      from p True have "i < length data" "i + 1 < length data" "i + 2 < length data"
        by simp_all
      then have "data' ! i = g" "data' ! (i + 1) = g" "data' ! (i + 2) = g"
        by (simp_all add: data'_def)
      moreover from IH p True have
        "stretch_loop l r data' (i + 4) ! i = data' ! i"
        "stretch_loop l r data' (i + 4) ! (i + 1) = data' ! (i + 1)"
        "stretch_loop l r data' (i + 4) ! (i + 2) = data' ! (i + 2)"
        by simp_all
      ultimately show ?thesis
        using unfold True by (simp add: g_def)
    next
      case False
      with p "1.prems" have ge: "i + 4 \<le> 4 * p"
        by presburger
      then have "luminance data' (4 * p) = luminance data (4 * p)"
        unfolding data'_def by (intro luminance_update) simp
      with IH ge p unfold show ?thesis
        by simp
    qed
    from part1 part2 part3 show ?thesis
      by blast
  qed
qed

text \<open>
  C9. For every pixel of the image, the preprocessor leaves the array with the red,
  the green and the blue byte of the pixel all equal to the gray value of that
  pixel and with the alpha byte as it was; the array keeps its length.
\<close>

theorem preprocess_keeps_alpha:
  assumes "4 * p + 3 < length (img_data sourceCanvas)"
  shows "img_data (preprocessCanvasForOCR sourceCanvas) ! (4 * p) = grayOfPixel sourceCanvas p \<and>
         img_data (preprocessCanvasForOCR sourceCanvas) ! (4 * p + 1) = grayOfPixel sourceCanvas p \<and>
         img_data (preprocessCanvasForOCR sourceCanvas) ! (4 * p + 2) = grayOfPixel sourceCanvas p \<and>
         img_data (preprocessCanvasForOCR sourceCanvas) ! (4 * p + 3) =
           img_data sourceCanvas ! (4 * p + 3) \<and>
         length (img_data (preprocessCanvasForOCR sourceCanvas)) =
           length (img_data sourceCanvas)"
proof -
  obtain lowVal highVal where lh:
    "percentile_loop (histogram_loop (img_data sourceCanvas) 0 (replicate 256 0))
       (img_width sourceCanvas * img_height sourceCanvas) 0 0 0 255 = (lowVal, highVal)"
    by (cases "percentile_loop (histogram_loop (img_data sourceCanvas) 0 (replicate 256 0))
       (img_width sourceCanvas * img_height sourceCanvas) 0 0 0 255")
  define r where "r = (if int highVal - int lowVal = 0 then 1 else int highVal - int lowVal)"
  have out: "img_data (preprocessCanvasForOCR sourceCanvas) =
             stretch_loop (int lowVal) r (img_data sourceCanvas) 0"
    by (simp add: preprocessCanvasForOCR_def Let_def lh r_def)
  have gray: "grayOfPixel sourceCanvas p =
              toUint8Clamped (map_option (stretchGray (int lowVal) r)
                                (luminance (img_data sourceCanvas) (4 * p)))"
    by (simp add: grayOfPixel_def contrastBounds_def lh r_def)
  have "(0::nat) mod 4 = 0"
    by simp
  note props = stretch_loop_props [OF this, of "int lowVal" r "img_data sourceCanvas"]
  from assms have "(4 * p + 3) mod 4 = 3"
    by presburger
  with props assms show ?thesis
    unfolding out gray by simp
qed

text \<open>The image of one pixel: its alpha byte 40 stays.\<close>

theorem preprocess_keeps_alpha_witness:
  "4 * 0 + 3 < length (img_data exampleImage) \<and>
   img_data (preprocessCanvasForOCR exampleImage) ! (4 * 0) = grayOfPixel exampleImage 0 \<and>
   img_data (preprocessCanvasForOCR exampleImage) ! (4 * 0 + 1) = grayOfPixel exampleImage 0 \<and>
   img_data (preprocessCanvasForOCR exampleImage) ! (4 * 0 + 2) = grayOfPixel exampleImage 0 \<and>
   img_data (preprocessCanvasForOCR exampleImage) ! (4 * 0 + 3) = 40 \<and>
   length (img_data (preprocessCanvasForOCR exampleImage)) = 4"
  using preprocess_keeps_alpha [of 0 exampleImage]
  by (simp add: exampleImage_def)

end
